theory Spec2Isabelle
  imports Main "HOL-Library.Sublist"
begin

section \<open>aws-vault: a shallow embedding of main.go\<close>

text \<open>
  The four cobra commands of \<^verbatim>\<open>main.go\<close> are modelled as functions from the
  parsed flags and the surroundings of the process (local files, the AWS SDK) to an
  outcome: the exit status, the lines printed and the SDK requests issued, in order.
  \<^verbatim>\<open>os.Exit(1)\<close> is an outcome with status 1; returning from \<^verbatim>\<open>Run\<close> is status 0.
\<close>

subsection \<open>Data\<close>

text \<open>A Go \<^verbatim>\<open>error\<close> is represented by the text of \<^verbatim>\<open>err.Error()\<close>; Go strings and
  byte slices are lists of 8-bit characters.\<close>

type_synonym err = string

text \<open>Each request sent through an SDK client, with the fields the code fills in.\<close>

datatype api_call =
    PutObjectCall string string string
  | GetObjectCall string string
  | DescribeSecretCall string
  | UpdateSecretCall string string string
  | CreateSecretCall string string string

record outcome =
  exit_status :: nat
  printed :: "string list"
  calls :: "api_call list"

text \<open>The local file system: the contents of the files that can be read, and the paths
  that \<^verbatim>\<open>ioutil.WriteFile\<close> cannot write.\<close>

record filesystem =
  files :: "string \<rightharpoonup> string"
  unwritable :: "string list"

definition ReadFile :: "filesystem \<Rightarrow> string \<Rightarrow> err + string" where
  "ReadFile fsys path =
     (case files fsys path of
        None \<Rightarrow> Inl (''open '' @ path @ '': no such file or directory'')
      | Some data \<Rightarrow> Inr data)"

definition WriteFile :: "filesystem \<Rightarrow> string \<Rightarrow> string \<Rightarrow> err + filesystem" where
  "WriteFile fsys path data =
     (if path \<in> set (unwritable fsys)
      then Inl (''open '' @ path @ '': permission denied'')
      else Inr (fsys\<lparr>files := (files fsys)(path \<mapsto> data)\<rparr>))"

text \<open>The flags of \<^verbatim>\<open>create-secret\<close>; \<^verbatim>\<open>update-secret\<close> has \<^verbatim>\<open>--update\<close> in addition.
  The timeout is a \<^verbatim>\<open>time.Duration\<close>, which becomes the context handed to every call.\<close>

record secret_flags =
  secretName :: string
  region :: string
  description :: string
  jsonFilePath :: string
  timeout :: int

record update_flags = secret_flags +
  updateFlag :: bool

text \<open>The Secrets Manager client is an opaque capability: each operation maps the context
  and the request to what the service answers. \<^verbatim>\<open>DescribeSecret\<close> and \<^verbatim>\<open>UpdateSecret\<close>
  answer with an error or none; \<^verbatim>\<open>CreateSecret\<close> with an error or the ARN.\<close>

record secrets_client =
  DescribeSecret :: "int \<Rightarrow> string \<Rightarrow> err option"
  UpdateSecret :: "int \<Rightarrow> string \<Rightarrow> string \<Rightarrow> string \<Rightarrow> err option"
  CreateSecret :: "int \<Rightarrow> string \<Rightarrow> string \<Rightarrow> string \<Rightarrow> err + string"

text \<open>\<^verbatim>\<open>config.LoadDefaultConfig(ctx, config.WithRegion(region))\<close> followed by
  \<^verbatim>\<open>secretsmanager.NewFromConfig(cfg)\<close>: an error, or the client for that region.\<close>

type_synonym secrets_config = "int \<Rightarrow> string \<Rightarrow> err + secrets_client"

subsection \<open>strings.Contains\<close>

fun Contains :: "string \<Rightarrow> string \<Rightarrow> bool" where
  "Contains [] substr = (substr = [])"
| "Contains (c # s) substr = (prefix substr (c # s) \<or> Contains s substr)"

subsection \<open>readSecretFromJSON\<close>

definition readSecretFromJSON :: "filesystem \<Rightarrow> string \<Rightarrow> string \<times> err option" where
  "readSecretFromJSON fsys filePath =
     (case ReadFile fsys filePath of
        Inl e \<Rightarrow> ('''', Some e)
      | Inr data \<Rightarrow> (data, None))"

subsection \<open>update-secret and create-secret\<close>

definition secret_usage :: string where
  "secret_usage =
     ''Please provide all required input parameters: --name, --region, --description, and --json-file''"

text \<open>Lines 204 to 238 of \<^verbatim>\<open>updateSecretCmd\<close>: what runs once the existence check has
  not ended the command. The lines printed and the calls made so far are passed in.\<close>

definition update_or_create ::
  "secrets_client \<Rightarrow> update_flags \<Rightarrow> string \<Rightarrow> string list \<Rightarrow> api_call list \<Rightarrow> outcome" where
  "update_or_create client fl secretValue out tr =
     (if updateFlag fl then
        (case UpdateSecret client (timeout fl) (secretName fl) (description fl) secretValue of
           Some e \<Rightarrow>
             \<lparr>exit_status = 1, printed = out @ [''Error updating secret: '' @ e],
              calls = tr @ [UpdateSecretCall (secretName fl) (description fl) secretValue]\<rparr>
         | None \<Rightarrow>
             \<lparr>exit_status = 0, printed = out @ [''Successfully updated secret.''],
              calls = tr @ [UpdateSecretCall (secretName fl) (description fl) secretValue]\<rparr>)
      else
        (case CreateSecret client (timeout fl) (secretName fl) (description fl) secretValue of
           Inl e \<Rightarrow>
             \<lparr>exit_status = 1, printed = out @ [''Error creating secret: '' @ e],
              calls = tr @ [CreateSecretCall (secretName fl) (description fl) secretValue]\<rparr>
         | Inr arn \<Rightarrow>
             \<lparr>exit_status = 0, printed = out @ [''Successfully created, Secret ARN: '' @ arn],
              calls = tr @ [CreateSecretCall (secretName fl) (description fl) secretValue]\<rparr>))"

definition updateSecretCmd :: "filesystem \<Rightarrow> secrets_config \<Rightarrow> update_flags \<Rightarrow> outcome" where
  "updateSecretCmd fsys LoadDefaultConfig fl =
     (if secretName fl = [] \<or> region fl = [] \<or> description fl = [] \<or> jsonFilePath fl = [] then
        \<lparr>exit_status = 1, printed = [secret_usage], calls = []\<rparr>
      else
        (case readSecretFromJSON fsys (jsonFilePath fl) of
           (_, Some e) \<Rightarrow>
             \<lparr>exit_status = 1,
              printed = [''Error reading secret value from JSON file: '' @ e], calls = []\<rparr>
         | (secretValue, None) \<Rightarrow>
             (case LoadDefaultConfig (timeout fl) (region fl) of
                Inl e \<Rightarrow>
                  \<lparr>exit_status = 1, printed = [''Error loading AWS SDK config: '' @ e],
                   calls = []\<rparr>
              | Inr client \<Rightarrow>
                  (case DescribeSecret client (timeout fl) (secretName fl) of
                     Some e \<Rightarrow>
                       if Contains e ''ResourceNotFoundException'' then
                         update_or_create client fl secretValue
                           [''Secret does not exist. Proceeding with creation...'']
                           [DescribeSecretCall (secretName fl)]
                       else
                         \<lparr>exit_status = 1, printed = [''Error describing secret: '' @ e],
                          calls = [DescribeSecretCall (secretName fl)]\<rparr>
                   | None \<Rightarrow>
                       if \<not> updateFlag fl then
                         \<lparr>exit_status = 0,
                          printed = [''Secret already exists and update flag not set. Exiting.''],
                          calls = [DescribeSecretCall (secretName fl)]\<rparr>
                       else
                         update_or_create client fl secretValue []
                           [DescribeSecretCall (secretName fl)]))))"

definition createSecretCmd :: "filesystem \<Rightarrow> secrets_config \<Rightarrow> secret_flags \<Rightarrow> outcome" where
  "createSecretCmd fsys LoadDefaultConfig fl =
     (if secretName fl = [] \<or> region fl = [] \<or> description fl = [] \<or> jsonFilePath fl = [] then
        \<lparr>exit_status = 1, printed = [secret_usage], calls = []\<rparr>
      else
        (case readSecretFromJSON fsys (jsonFilePath fl) of
           (_, Some e) \<Rightarrow>
             \<lparr>exit_status = 1,
              printed = [''Error reading secret value from JSON file: '' @ e], calls = []\<rparr>
         | (secretValue, None) \<Rightarrow>
             (case LoadDefaultConfig (timeout fl) (region fl) of
                Inl e \<Rightarrow>
                  \<lparr>exit_status = 1, printed = [''Error loading AWS SDK config: '' @ e],
                   calls = []\<rparr>
              | Inr client \<Rightarrow>
                  (case CreateSecret client (timeout fl) (secretName fl) (description fl)
                          secretValue of
                     Inl e \<Rightarrow>
                       \<lparr>exit_status = 1, printed = [''Error creating secret: '' @ e],
                        calls = [CreateSecretCall (secretName fl) (description fl) secretValue]\<rparr>
                   | Inr arn \<Rightarrow>
                       \<lparr>exit_status = 0,
                        printed = [''Successfully created, Secret ARN: '' @ arn],
                        calls =
                          [CreateSecretCall (secretName fl) (description fl) secretValue]\<rparr>))))"

subsection \<open>upload and download\<close>

record transfer_flags =
  bucketName :: string
  filePath :: string
  subdirectory :: string

text \<open>The object store behind the S3 client: every bucket that exists maps keys to
  object bodies. \<^verbatim>\<open>PutObject\<close> stores the body under the key of an existing bucket,
  \<^verbatim>\<open>GetObject\<close> answers with the body stored under the key.\<close>

type_synonym s3_store = "string \<rightharpoonup> (string \<rightharpoonup> string)"

definition PutObject :: "s3_store \<Rightarrow> string \<Rightarrow> string \<Rightarrow> string \<Rightarrow> err + s3_store" where
  "PutObject store bucket key body =
     (case store bucket of
        None \<Rightarrow> Inl ''NoSuchBucket: The specified bucket does not exist''
      | Some objects \<Rightarrow> Inr (store(bucket \<mapsto> objects(key \<mapsto> body))))"

definition GetObject :: "s3_store \<Rightarrow> string \<Rightarrow> string \<Rightarrow> err + string" where
  "GetObject store bucket key =
     (case store bucket of
        None \<Rightarrow> Inl ''NoSuchBucket: The specified bucket does not exist''
      | Some objects \<Rightarrow>
          (case objects key of
             None \<Rightarrow> Inl ''NoSuchKey: The specified key does not exist''
           | Some body \<Rightarrow> Inr body))"

text \<open>What surrounds a transfer command: the local files, the object store, the error of
  \<^verbatim>\<open>config.LoadDefaultConfig\<close> if it fails, and the error of \<^verbatim>\<open>ioutil.ReadAll\<close> on
  the response body if the stream breaks.\<close>

record world =
  disk :: filesystem
  s3 :: s3_store
  config_error :: "err option"
  body_error :: "err option"

definition transfer_usage :: string where
  "transfer_usage = ''Please provide all required input parameters: --bucket and --file''"

definition uploadCmd :: "world \<Rightarrow> transfer_flags \<Rightarrow> outcome \<times> world" where
  "uploadCmd w fl =
     (if bucketName fl = [] \<or> filePath fl = [] then
        (\<lparr>exit_status = 1, printed = [transfer_usage], calls = []\<rparr>, w)
      else
        (case config_error w of
           Some e \<Rightarrow>
             (\<lparr>exit_status = 1, printed = [''Error loading AWS SDK config: '' @ e],
               calls = []\<rparr>, w)
         | None \<Rightarrow>
             (case ReadFile (disk w) (filePath fl) of
                Inl e \<Rightarrow>
                  (\<lparr>exit_status = 1, printed = [''Error reading file: '' @ e], calls = []\<rparr>, w)
              | Inr data \<Rightarrow>
                  (case PutObject (s3 w) (bucketName fl)
                          (subdirectory fl @ ''/'' @ filePath fl) data of
                     Inl e \<Rightarrow>
                       (\<lparr>exit_status = 1, printed = [''Error uploading file to S3: '' @ e],
                         calls = [PutObjectCall (bucketName fl)
                                    (subdirectory fl @ ''/'' @ filePath fl) data]\<rparr>, w)
                   | Inr store \<Rightarrow>
                       (\<lparr>exit_status = 0, printed = [''File uploaded to S3 successfully.''],
                         calls = [PutObjectCall (bucketName fl)
                                    (subdirectory fl @ ''/'' @ filePath fl) data]\<rparr>,
                        w\<lparr>s3 := store\<rparr>)))))"

definition downloadCmd :: "world \<Rightarrow> transfer_flags \<Rightarrow> outcome \<times> world" where
  "downloadCmd w fl =
     (if bucketName fl = [] \<or> filePath fl = [] then
        (\<lparr>exit_status = 1, printed = [transfer_usage], calls = []\<rparr>, w)
      else
        (case config_error w of
           Some e \<Rightarrow>
             (\<lparr>exit_status = 1, printed = [''Error loading AWS SDK config: '' @ e],
               calls = []\<rparr>, w)
         | None \<Rightarrow>
             (case GetObject (s3 w) (bucketName fl)
                     (subdirectory fl @ ''/'' @ filePath fl) of
                Inl e \<Rightarrow>
                  (\<lparr>exit_status = 1, printed = [''Error downloading file from S3: '' @ e],
                    calls = [GetObjectCall (bucketName fl)
                               (subdirectory fl @ ''/'' @ filePath fl)]\<rparr>, w)
              | Inr body \<Rightarrow>
                  (case body_error w of
                     Some e \<Rightarrow>
                       (\<lparr>exit_status = 1, printed = [''Error reading file contents: '' @ e],
                         calls = [GetObjectCall (bucketName fl)
                                    (subdirectory fl @ ''/'' @ filePath fl)]\<rparr>, w)
                   | None \<Rightarrow>
                       (case WriteFile (disk w) (filePath fl) body of
                          Inl e \<Rightarrow>
                            (\<lparr>exit_status = 1,
                              printed = [''Error writing file to disk: '' @ e],
                              calls = [GetObjectCall (bucketName fl)
                                         (subdirectory fl @ ''/'' @ filePath fl)]\<rparr>, w)
                        | Inr d \<Rightarrow>
                            (\<lparr>exit_status = 0,
                              printed = [''File downloaded from S3 successfully.''],
                              calls = [GetObjectCall (bucketName fl)
                                         (subdirectory fl @ ''/'' @ filePath fl)]\<rparr>,
                             w\<lparr>disk := d\<rparr>))))))"

subsection \<open>Test surroundings\<close>

text \<open>The scenario of the specification: the secret \<^verbatim>\<open>db-pass\<close> in \<^verbatim>\<open>us-east-1\<close>, its
  value in \<^verbatim>\<open>secret.json\<close>.\<close>

definition demo_fs :: filesystem where
  "demo_fs = \<lparr>files = [''secret.json'' \<mapsto> ''{\"password\":\"x\"}''], unwritable = []\<rparr>"

definition demo_flags :: "bool \<Rightarrow> update_flags" where
  "demo_flags u =
     \<lparr>secretName = ''db-pass'', region = ''us-east-1'', description = ''prod db password'',
      jsonFilePath = ''secret.json'', timeout = 30000000000, updateFlag = u\<rparr>"

text \<open>A service in which the secret exists: describe and update succeed, create is
  refused.\<close>

definition client_exists :: secrets_client where
  "client_exists =
     \<lparr>DescribeSecret = (\<lambda>ctx n. None),
      UpdateSecret = (\<lambda>ctx n d v. None),
      CreateSecret = (\<lambda>ctx n d v. Inl ''ResourceExistsException: already exists'')\<rparr>"

text \<open>A service in which the secret does not exist: describe and update are refused,
  create succeeds.\<close>

definition client_missing :: secrets_client where
  "client_missing =
     \<lparr>DescribeSecret = (\<lambda>ctx n. Some ''ResourceNotFoundException: no such secret''),
      UpdateSecret = (\<lambda>ctx n d v. Some ''ResourceNotFoundException: no such secret''),
      CreateSecret = (\<lambda>ctx n d v. Inr (''arn:aws:secretsmanager:'' @ n))\<rparr>"

text \<open>A service that refuses every request.\<close>

definition client_denied :: secrets_client where
  "client_denied =
     \<lparr>DescribeSecret = (\<lambda>ctx n. Some ''AccessDeniedException: not authorized''),
      UpdateSecret = (\<lambda>ctx n d v. Some ''AccessDeniedException: not authorized''),
      CreateSecret = (\<lambda>ctx n d v. Inl ''AccessDeniedException: not authorized'')\<rparr>"

text \<open>A service in which the secret exists but the update runs out of time.\<close>

definition client_update_fails :: secrets_client where
  "client_update_fails =
     \<lparr>DescribeSecret = (\<lambda>ctx n. None),
      UpdateSecret = (\<lambda>ctx n d v. Some ''context deadline exceeded''),
      CreateSecret = (\<lambda>ctx n d v. Inl ''ResourceExistsException: already exists'')\<rparr>"

text \<open>A configuration that loads, whatever the context and the region, and yields the
  given client.\<close>

definition config_with :: "secrets_client \<Rightarrow> secrets_config" where
  "config_with client = (\<lambda>ctx r. Inr client)"

definition demo_create_flags :: secret_flags where
  "demo_create_flags =
     \<lparr>secretName = ''db-pass'', region = ''us-east-1'', description = ''prod db password'',
      jsonFilePath = ''secret.json'', timeout = 30000000000\<rparr>"


text \<open>A machine holding \<^verbatim>\<open>notes.txt\<close>, an account with the empty bucket \<^verbatim>\<open>backups\<close>,
  and the same machine after the file was lost.\<close>

definition demo_world :: world where
  "demo_world =
     \<lparr>disk = \<lparr>files = [''notes.txt'' \<mapsto> ''hello''], unwritable = []\<rparr>,
      s3 = [''backups'' \<mapsto> Map.empty],
      config_error = None, body_error = None\<rparr>"

definition demo_transfer :: "string \<Rightarrow> transfer_flags" where
  "demo_transfer sub = \<lparr>bucketName = ''backups'', filePath = ''notes.txt'', subdirectory = sub\<rparr>"

definition empty_disk :: filesystem where
  "empty_disk = \<lparr>files = Map.empty, unwritable = []\<rparr>"


text \<open>The same machine with an older object stored under the bare file name, and an
  account whose object is stored under the key with the leading separator.\<close>

definition stale_world :: world where
  "stale_world =
     \<lparr>disk = \<lparr>files = [''notes.txt'' \<mapsto> ''hello''], unwritable = []\<rparr>,
      s3 = [''backups'' \<mapsto> [''notes.txt'' \<mapsto> ''stale'']],
      config_error = None, body_error = None\<rparr>"

definition stored_world :: world where
  "stored_world =
     \<lparr>disk = empty_disk,
      s3 = [''backups'' \<mapsto> [''/notes.txt'' \<mapsto> ''hello'']],
      config_error = None, body_error = None\<rparr>"

section \<open>The secret commands\<close>

lemma Contains_iff_sublist: "Contains s substr \<longleftrightarrow> sublist substr s"
  by (induction s) (simp_all add: sublist_Cons_right)

lemma Contains_iff: "Contains s substr \<longleftrightarrow> (\<exists>p q. s = p @ substr @ q)"
  by (simp add: Contains_iff_sublist sublist_def)

lemma read_ok:
  "files fsys p = Some v \<Longrightarrow> readSecretFromJSON fsys p = (v, None)"
  by (simp add: readSecretFromJSON_def ReadFile_def)

text \<open>With all four required flags, a readable file and a configuration that loads,
  update-secret reaches the existence check, and the rest is decided there.\<close>

lemma update_reaches_describe:
  assumes "secretName fl \<noteq> []" and "region fl \<noteq> []" and "description fl \<noteq> []"
    and "jsonFilePath fl \<noteq> []"
    and "files fsys (jsonFilePath fl) = Some v"
    and "cfg (timeout fl) (region fl) = Inr client"
  shows "updateSecretCmd fsys cfg fl =
     (case DescribeSecret client (timeout fl) (secretName fl) of
         Some e \<Rightarrow>
           if Contains e ''ResourceNotFoundException'' then
             update_or_create client fl v
               [''Secret does not exist. Proceeding with creation...'']
               [DescribeSecretCall (secretName fl)]
           else
             \<lparr>exit_status = 1, printed = [''Error describing secret: '' @ e],
              calls = [DescribeSecretCall (secretName fl)]\<rparr>
       | None \<Rightarrow>
           if \<not> updateFlag fl then
             \<lparr>exit_status = 0,
              printed = [''Secret already exists and update flag not set. Exiting.''],
              calls = [DescribeSecretCall (secretName fl)]\<rparr>
           else
             update_or_create client fl v [] [DescribeSecretCall (secretName fl)])"
  using assms by (simp add: updateSecretCmd_def read_ok)

text \<open>
  C4. When the describe call succeeds (the secret exists) and \<^verbatim>\<open>--update\<close> was not
  given, update-secret sends the describe request and nothing else: neither create nor
  update is called, and the command returns with status 0 after the no-op message.
\<close>

theorem exists_without_update_is_noop:
  assumes "secretName fl \<noteq> []" and "region fl \<noteq> []" and "description fl \<noteq> []"
    and "jsonFilePath fl \<noteq> []"
    and "files fsys (jsonFilePath fl) = Some v"
    and "cfg (timeout fl) (region fl) = Inr client"
    and "DescribeSecret client (timeout fl) (secretName fl) = None"
    and "\<not> updateFlag fl"
  shows "updateSecretCmd fsys cfg fl =
           \<lparr>exit_status = 0,
            printed = [''Secret already exists and update flag not set. Exiting.''],
            calls = [DescribeSecretCall (secretName fl)]\<rparr>"
  using assms by (simp add: updateSecretCmd_def readSecretFromJSON_def ReadFile_def)

theorem exists_without_update_is_noop_witness:
  "updateSecretCmd demo_fs (config_with client_exists) (demo_flags False) =
     \<lparr>exit_status = 0,
      printed = [''Secret already exists and update flag not set. Exiting.''],
      calls = [DescribeSecretCall ''db-pass'']\<rparr>"
  using exists_without_update_is_noop
          [of "demo_flags False" demo_fs "''{\"password\":\"x\"}''"
              "config_with client_exists" client_exists]
  by (simp add: demo_flags_def demo_fs_def client_exists_def config_with_def)

text \<open>
  C1. When the describe call fails with the not-found marker, the procedure is said to
  call create once and never update, whatever \<^verbatim>\<open>--update\<close> says. With \<^verbatim>\<open>--update\<close>
  given, the code announces the creation and then sends an update request instead; no
  create request is made. Here the service has no such secret, so the update is refused
  and the command ends with status 1.
\<close>

theorem not_found_with_update_calls_update:
  "updateSecretCmd demo_fs (config_with client_missing) (demo_flags True) =
     \<lparr>exit_status = 1,
      printed = [''Secret does not exist. Proceeding with creation...'',
                 ''Error updating secret: ResourceNotFoundException: no such secret''],
      calls = [DescribeSecretCall ''db-pass'',
               UpdateSecretCall ''db-pass'' ''prod db password'' ''{\"password\":\"x\"}'']\<rparr>"
  by (simp add: updateSecretCmd_def update_or_create_def readSecretFromJSON_def ReadFile_def
        demo_fs_def demo_flags_def client_missing_def config_with_def)

text \<open>
  C3. When the describe call succeeds (the secret exists) and \<^verbatim>\<open>--update\<close> was given,
  update-secret sends the describe request and then exactly one update request carrying
  the name, the description and the file contents; no create request is made. If the
  update fails the command ends with status 1 and the error; if it succeeds the command
  ends with status 0 and reports that the secret was updated.
\<close>

theorem exists_with_update_calls_update:
  assumes "secretName fl \<noteq> []" and "region fl \<noteq> []" and "description fl \<noteq> []"
    and "jsonFilePath fl \<noteq> []"
    and "files fsys (jsonFilePath fl) = Some v"
    and "cfg (timeout fl) (region fl) = Inr client"
    and "DescribeSecret client (timeout fl) (secretName fl) = None"
    and "updateFlag fl"
  shows "updateSecretCmd fsys cfg fl =
           (case UpdateSecret client (timeout fl) (secretName fl) (description fl) v of
              Some e \<Rightarrow>
                \<lparr>exit_status = 1, printed = [''Error updating secret: '' @ e],
                 calls = [DescribeSecretCall (secretName fl),
                          UpdateSecretCall (secretName fl) (description fl) v]\<rparr>
            | None \<Rightarrow>
                \<lparr>exit_status = 0, printed = [''Successfully updated secret.''],
                 calls = [DescribeSecretCall (secretName fl),
                          UpdateSecretCall (secretName fl) (description fl) v]\<rparr>)"
  using assms update_reaches_describe [of fl fsys v cfg client]
  by (simp add: update_or_create_def split: option.split)

theorem exists_with_update_calls_update_witness:
  "updateSecretCmd demo_fs (config_with client_exists) (demo_flags True) =
     \<lparr>exit_status = 0, printed = [''Successfully updated secret.''],
      calls = [DescribeSecretCall ''db-pass'',
               UpdateSecretCall ''db-pass'' ''prod db password'' ''{\"password\":\"x\"}'']\<rparr>
   \<and> updateSecretCmd demo_fs (config_with client_update_fails) (demo_flags True) =
     \<lparr>exit_status = 1, printed = [''Error updating secret: context deadline exceeded''],
      calls = [DescribeSecretCall ''db-pass'',
               UpdateSecretCall ''db-pass'' ''prod db password'' ''{\"password\":\"x\"}'']\<rparr>"
  using exists_with_update_calls_update
          [of "demo_flags True" demo_fs "''{\"password\":\"x\"}''"
              "config_with client_exists" client_exists]
        exists_with_update_calls_update
          [of "demo_flags True" demo_fs "''{\"password\":\"x\"}''"
              "config_with client_update_fails" client_update_fails]
  by (simp add: demo_flags_def demo_fs_def client_exists_def client_update_fails_def
        config_with_def)

text \<open>
  C5. When the describe call fails with an error whose message lacks the not-found
  marker (the unknown-error outcome), update-secret sends nothing after the describe
  request, neither create nor update, and ends with status 1, printing that error.
\<close>

theorem describe_unknown_error_is_fatal:
  assumes "secretName fl \<noteq> []" and "region fl \<noteq> []" and "description fl \<noteq> []"
    and "jsonFilePath fl \<noteq> []"
    and "files fsys (jsonFilePath fl) = Some v"
    and "cfg (timeout fl) (region fl) = Inr client"
    and "DescribeSecret client (timeout fl) (secretName fl) = Some e"
    and "\<not> Contains e ''ResourceNotFoundException''"
  shows "updateSecretCmd fsys cfg fl =
           \<lparr>exit_status = 1, printed = [''Error describing secret: '' @ e],
            calls = [DescribeSecretCall (secretName fl)]\<rparr>"
  using assms update_reaches_describe [of fl fsys v cfg client] by simp

theorem describe_unknown_error_is_fatal_witness:
  "updateSecretCmd demo_fs (config_with client_denied) (demo_flags True) =
     \<lparr>exit_status = 1,
      printed = [''Error describing secret: AccessDeniedException: not authorized''],
      calls = [DescribeSecretCall ''db-pass'']\<rparr>
   \<and> updateSecretCmd demo_fs (config_with client_denied) (demo_flags False) =
     \<lparr>exit_status = 1,
      printed = [''Error describing secret: AccessDeniedException: not authorized''],
      calls = [DescribeSecretCall ''db-pass'']\<rparr>"
  using describe_unknown_error_is_fatal
          [of "demo_flags True" demo_fs "''{\"password\":\"x\"}''"
              "config_with client_denied" client_denied
              "''AccessDeniedException: not authorized''"]
        describe_unknown_error_is_fatal
          [of "demo_flags False" demo_fs "''{\"password\":\"x\"}''"
              "config_with client_denied" client_denied
              "''AccessDeniedException: not authorized''"]
  by (simp add: demo_flags_def demo_fs_def client_denied_def config_with_def)

text \<open>
  C2. The create-secret entry point is said to run the decision procedure of
  update-secret: describe first, and end quietly when the secret exists. On a service
  where the secret exists, create-secret sends no describe request: it sends the create
  request at once, the service refuses it and the command ends with status 1, while
  update-secret with the same flags sends the describe request only and ends with
  status 0.
\<close>

theorem create_secret_skips_describe_counterexample:
  "createSecretCmd demo_fs (config_with client_exists) demo_create_flags =
     \<lparr>exit_status = 1,
      printed = [''Error creating secret: ResourceExistsException: already exists''],
      calls = [CreateSecretCall ''db-pass'' ''prod db password'' ''{\"password\":\"x\"}'']\<rparr>
   \<and> updateSecretCmd demo_fs (config_with client_exists) (demo_flags False) =
     \<lparr>exit_status = 0,
      printed = [''Secret already exists and update flag not set. Exiting.''],
      calls = [DescribeSecretCall ''db-pass'']\<rparr>"
  by (simp add: createSecretCmd_def updateSecretCmd_def readSecretFromJSON_def ReadFile_def
        demo_fs_def demo_flags_def demo_create_flags_def client_exists_def config_with_def)

text \<open>
  C2, as the code has it. create-secret does not run the decision procedure: with all
  four required flags, a readable file and a configuration that loads, it sends no
  describe request and exactly one create request carrying the name, the description
  and the file contents, whether or not the secret exists. It ends with status 0 and
  the ARN when the create succeeds, and with status 1 and the error when it fails.
\<close>

theorem create_secret_creates_without_describe:
  assumes "secretName fl \<noteq> []" and "region fl \<noteq> []" and "description fl \<noteq> []"
    and "jsonFilePath fl \<noteq> []"
    and "files fsys (jsonFilePath fl) = Some v"
    and "cfg (timeout fl) (region fl) = Inr client"
  shows "createSecretCmd fsys cfg fl =
           (case CreateSecret client (timeout fl) (secretName fl) (description fl) v of
              Inl e \<Rightarrow>
                \<lparr>exit_status = 1, printed = [''Error creating secret: '' @ e],
                 calls = [CreateSecretCall (secretName fl) (description fl) v]\<rparr>
            | Inr arn \<Rightarrow>
                \<lparr>exit_status = 0, printed = [''Successfully created, Secret ARN: '' @ arn],
                 calls = [CreateSecretCall (secretName fl) (description fl) v]\<rparr>)"
  using assms by (simp add: createSecretCmd_def read_ok)

theorem create_secret_creates_without_describe_witness:
  "createSecretCmd demo_fs (config_with client_missing) demo_create_flags =
     \<lparr>exit_status = 0,
      printed = [''Successfully created, Secret ARN: arn:aws:secretsmanager:db-pass''],
      calls = [CreateSecretCall ''db-pass'' ''prod db password'' ''{\"password\":\"x\"}'']\<rparr>"
  using create_secret_creates_without_describe
          [of demo_create_flags demo_fs "''{\"password\":\"x\"}''"
              "config_with client_missing" client_missing]
  by (simp add: demo_create_flags_def demo_fs_def client_missing_def config_with_def)

text \<open>
  C7. When a required flag is empty (\<^verbatim>\<open>--bucket\<close> or \<^verbatim>\<open>--file\<close> for upload and
  download; \<^verbatim>\<open>--name\<close>, \<^verbatim>\<open>--region\<close>, \<^verbatim>\<open>--description\<close> or \<^verbatim>\<open>--json-file\<close> for
  create-secret and update-secret), the command ends with status 1 after printing the
  usage line only; no request has been sent, and the files and the object store are as
  they were.
\<close>

theorem missing_required_flag_exits_before_any_call:
  "(bucketName tf = [] \<or> filePath tf = [] \<longrightarrow>
      uploadCmd w tf = (\<lparr>exit_status = 1, printed = [transfer_usage], calls = []\<rparr>, w)
    \<and> downloadCmd w tf = (\<lparr>exit_status = 1, printed = [transfer_usage], calls = []\<rparr>, w))
   \<and> (secretName sf = [] \<or> region sf = [] \<or> description sf = [] \<or> jsonFilePath sf = [] \<longrightarrow>
      createSecretCmd fsys cfg sf =
        \<lparr>exit_status = 1, printed = [secret_usage], calls = []\<rparr>)
   \<and> (secretName uf = [] \<or> region uf = [] \<or> description uf = [] \<or> jsonFilePath uf = [] \<longrightarrow>
      updateSecretCmd fsys cfg uf =
        \<lparr>exit_status = 1, printed = [secret_usage], calls = []\<rparr>)"
  by (simp add: uploadCmd_def downloadCmd_def createSecretCmd_def updateSecretCmd_def)

theorem missing_required_flag_exits_before_any_call_witness:
  "uploadCmd demo_world \<lparr>bucketName = '''', filePath = ''notes.txt'', subdirectory = ''''\<rparr> =
     (\<lparr>exit_status = 1, printed = [transfer_usage], calls = []\<rparr>, demo_world)
   \<and> downloadCmd demo_world \<lparr>bucketName = '''', filePath = ''notes.txt'', subdirectory = ''''\<rparr> =
     (\<lparr>exit_status = 1, printed = [transfer_usage], calls = []\<rparr>, demo_world)
   \<and> createSecretCmd demo_fs (config_with client_missing) (demo_create_flags\<lparr>region := ''''\<rparr>) =
     \<lparr>exit_status = 1, printed = [secret_usage], calls = []\<rparr>
   \<and> updateSecretCmd demo_fs (config_with client_missing)
        ((demo_flags True)\<lparr>jsonFilePath := ''''\<rparr>) =
     \<lparr>exit_status = 1, printed = [secret_usage], calls = []\<rparr>"
  using missing_required_flag_exits_before_any_call
          [of "\<lparr>bucketName = '''', filePath = ''notes.txt'', subdirectory = ''''\<rparr>"
              demo_world "demo_create_flags\<lparr>region := ''''\<rparr>"
              demo_fs "config_with client_missing"
              "(demo_flags True)\<lparr>jsonFilePath := ''''\<rparr>"]
  by (simp add: demo_create_flags_def demo_flags_def)

lemma update_or_create_calls:
  "\<exists>c. calls (update_or_create client fl v out tr) = tr @ [c]"
  by (simp add: update_or_create_def split: option.split sum.split)

lemma update_or_create_printed:
  "\<exists>l. printed (update_or_create client fl v out tr) = out @ [l]"
  by (simp add: update_or_create_def split: option.split sum.split)

text \<open>
  C8. When the describe call of update-secret fails, the failure counts as "not found"
  (the command announces the creation and goes on to a second request) if and only if
  the error message contains \<^verbatim>\<open>ResourceNotFoundException\<close> as a substring; a failure
  whose message lacks the substring ends the command with status 1 after the describe
  request.
\<close>

theorem describe_failure_classified_by_substring:
  assumes "secretName fl \<noteq> []" and "region fl \<noteq> []" and "description fl \<noteq> []"
    and "jsonFilePath fl \<noteq> []"
    and "files fsys (jsonFilePath fl) = Some v"
    and "cfg (timeout fl) (region fl) = Inr client"
    and "DescribeSecret client (timeout fl) (secretName fl) = Some e"
  shows "((\<exists>p q. e = p @ ''ResourceNotFoundException'' @ q) \<longleftrightarrow>
            hd (printed (updateSecretCmd fsys cfg fl)) =
              ''Secret does not exist. Proceeding with creation...''
            \<and> length (calls (updateSecretCmd fsys cfg fl)) = 2)
       \<and> ((\<nexists>p q. e = p @ ''ResourceNotFoundException'' @ q) \<longrightarrow>
            updateSecretCmd fsys cfg fl =
              \<lparr>exit_status = 1, printed = [''Error describing secret: '' @ e],
               calls = [DescribeSecretCall (secretName fl)]\<rparr>)"
proof (cases "Contains e ''ResourceNotFoundException''")
  case True
  with assms update_reaches_describe [of fl fsys v cfg client]
  have run: "updateSecretCmd fsys cfg fl =
      update_or_create client fl v
        [''Secret does not exist. Proceeding with creation...'']
        [DescribeSecretCall (secretName fl)]"
    by simp
  obtain c where "calls (updateSecretCmd fsys cfg fl) = [DescribeSecretCall (secretName fl)] @ [c]"
    using update_or_create_calls run by metis
  moreover obtain l where "printed (updateSecretCmd fsys cfg fl) =
      [''Secret does not exist. Proceeding with creation...''] @ [l]"
    using update_or_create_printed run by metis
  ultimately show ?thesis
    using True by (simp add: Contains_iff)
next
  case False
  with assms update_reaches_describe [of fl fsys v cfg client]
  have "updateSecretCmd fsys cfg fl =
      \<lparr>exit_status = 1, printed = [''Error describing secret: '' @ e],
       calls = [DescribeSecretCall (secretName fl)]\<rparr>"
    by simp
  then show ?thesis
    using False by (simp add: Contains_iff)
qed


theorem describe_failure_classified_by_substring_witness:
  "hd (printed (updateSecretCmd demo_fs (config_with client_missing) (demo_flags False))) =
     ''Secret does not exist. Proceeding with creation...''
   \<and> length (calls (updateSecretCmd demo_fs (config_with client_missing) (demo_flags False))) = 2
   \<and> updateSecretCmd demo_fs (config_with client_denied) (demo_flags False) =
     \<lparr>exit_status = 1,
      printed = [''Error describing secret: AccessDeniedException: not authorized''],
      calls = [DescribeSecretCall ''db-pass'']\<rparr>"
proof -
  have marked: "\<exists>p q. ''ResourceNotFoundException: no such secret'' =
                  p @ ''ResourceNotFoundException'' @ q"
    unfolding Contains_iff [symmetric] by simp
  have unmarked: "\<nexists>p q. ''AccessDeniedException: not authorized'' =
                    p @ ''ResourceNotFoundException'' @ q"
    unfolding Contains_iff [symmetric] by simp
  have name: "secretName (demo_flags False) = ''db-pass''"
    by (simp add: demo_flags_def)
  have missing:
    "((\<exists>p q. ''ResourceNotFoundException: no such secret'' =
          p @ ''ResourceNotFoundException'' @ q) \<longleftrightarrow>
        hd (printed (updateSecretCmd demo_fs (config_with client_missing) (demo_flags False))) =
          ''Secret does not exist. Proceeding with creation...''
        \<and> length (calls (updateSecretCmd demo_fs (config_with client_missing)
                    (demo_flags False))) = 2)
     \<and> ((\<nexists>p q. ''ResourceNotFoundException: no such secret'' =
            p @ ''ResourceNotFoundException'' @ q) \<longrightarrow>
        updateSecretCmd demo_fs (config_with client_missing) (demo_flags False) =
          \<lparr>exit_status = 1,
           printed = [''Error describing secret: '' @
                      ''ResourceNotFoundException: no such secret''],
           calls = [DescribeSecretCall (secretName (demo_flags False))]\<rparr>)"
    by (rule describe_failure_classified_by_substring
               [where v = "''{\"password\":\"x\"}''" and client = client_missing])
       (simp_all add: demo_flags_def demo_fs_def client_missing_def config_with_def)
  have denied:
    "((\<exists>p q. ''AccessDeniedException: not authorized'' =
          p @ ''ResourceNotFoundException'' @ q) \<longleftrightarrow>
        hd (printed (updateSecretCmd demo_fs (config_with client_denied) (demo_flags False))) =
          ''Secret does not exist. Proceeding with creation...''
        \<and> length (calls (updateSecretCmd demo_fs (config_with client_denied)
                    (demo_flags False))) = 2)
     \<and> ((\<nexists>p q. ''AccessDeniedException: not authorized'' =
            p @ ''ResourceNotFoundException'' @ q) \<longrightarrow>
        updateSecretCmd demo_fs (config_with client_denied) (demo_flags False) =
          \<lparr>exit_status = 1,
           printed = [''Error describing secret: '' @
                      ''AccessDeniedException: not authorized''],
           calls = [DescribeSecretCall (secretName (demo_flags False))]\<rparr>)"
    by (rule describe_failure_classified_by_substring
               [where v = "''{\"password\":\"x\"}''" and client = client_denied])
       (simp_all add: demo_flags_def demo_fs_def client_denied_def config_with_def)
  from missing marked have
    "hd (printed (updateSecretCmd demo_fs (config_with client_missing) (demo_flags False))) =
       ''Secret does not exist. Proceeding with creation...''
     \<and> length (calls (updateSecretCmd demo_fs (config_with client_missing)
                 (demo_flags False))) = 2"
    by blast
  moreover from denied unmarked have
    "updateSecretCmd demo_fs (config_with client_denied) (demo_flags False) =
       \<lparr>exit_status = 1,
        printed = [''Error describing secret: '' @ ''AccessDeniedException: not authorized''],
        calls = [DescribeSecretCall (secretName (demo_flags False))]\<rparr>"
    by blast
  ultimately show ?thesis
    by (simp only: name append.simps) 
qed





section \<open>The transfer commands\<close>

lemma upload_calls:
  "c \<in> set (calls (fst (uploadCmd w fl))) \<Longrightarrow>
   \<exists>data. c = PutObjectCall (bucketName fl) (subdirectory fl @ ''/'' @ filePath fl) data"
  by (auto simp add: uploadCmd_def split: if_splits option.splits sum.splits)

lemma download_calls:
  "c \<in> set (calls (fst (downloadCmd w fl))) \<Longrightarrow>
   c = GetObjectCall (bucketName fl) (subdirectory fl @ ''/'' @ filePath fl)"
  by (auto simp add: downloadCmd_def split: if_splits option.splits sum.splits)

lemma upload_ok:
  assumes "bucketName fl \<noteq> []" and "filePath fl \<noteq> []" and "config_error w = None"
    and "files (disk w) (filePath fl) = Some data"
    and "s3 w (bucketName fl) = Some objects"
  shows "uploadCmd w fl =
           (\<lparr>exit_status = 0, printed = [''File uploaded to S3 successfully.''],
             calls = [PutObjectCall (bucketName fl)
                        (subdirectory fl @ ''/'' @ filePath fl) data]\<rparr>,
            w\<lparr>s3 := (s3 w)(bucketName fl \<mapsto>
                       objects(subdirectory fl @ ''/'' @ filePath fl \<mapsto> data))\<rparr>)"
  using assms by (simp add: uploadCmd_def ReadFile_def PutObject_def)

lemma download_ok:
  assumes "bucketName fl \<noteq> []" and "filePath fl \<noteq> []" and "config_error w = None"
    and "body_error w = None"
    and "s3 w (bucketName fl) = Some objects"
    and "objects (subdirectory fl @ ''/'' @ filePath fl) = Some body"
    and "filePath fl \<notin> set (unwritable (disk w))"
  shows "downloadCmd w fl =
           (\<lparr>exit_status = 0, printed = [''File downloaded from S3 successfully.''],
             calls = [GetObjectCall (bucketName fl)
                        (subdirectory fl @ ''/'' @ filePath fl)]\<rparr>,
            w\<lparr>disk := (disk w)\<lparr>files := (files (disk w))(filePath fl \<mapsto> body)\<rparr>\<rparr>)"
  using assms by (simp add: downloadCmd_def GetObject_def WriteFile_def)

lemma key_is_not_file: "sub @ ''/'' @ file \<noteq> file"
proof
  assume "sub @ ''/'' @ file = file"
  then have "length (sub @ ''/'' @ file) = length file"
    by (rule arg_cong)
  then show False
    by simp
qed

lemma download_missing:
  assumes "bucketName fl \<noteq> []" and "filePath fl \<noteq> []" and "config_error w = None"
    and "s3 w (bucketName fl) = Some objects"
    and "objects (subdirectory fl @ ''/'' @ filePath fl) = None"
  shows "downloadCmd w fl =
           (\<lparr>exit_status = 1,
             printed = [''Error downloading file from S3: NoSuchKey: The specified key does not exist''],
             calls = [GetObjectCall (bucketName fl)
                        (subdirectory fl @ ''/'' @ filePath fl)]\<rparr>, w)"
  using assms by (simp add: downloadCmd_def GetObject_def)

text \<open>
  C10. The object key that upload and download hand to the store is the subdirectory,
  then \<^verbatim>\<open>/\<close>, then the file path. Upload stores the contents of the file under that
  key of the bucket and leaves the object under the bare file path as it was; download
  writes the object stored under that key to the file, and fails when there is none,
  whatever is stored under the bare file path. With \<^verbatim>\<open>--subdirectory\<close> left out
  the key is \<^verbatim>\<open>/\<close> followed by the file path: it begins with the separator.
  Whatever the surroundings, no request of either command carries another key.
\<close>

theorem object_key_is_subdirectory_slash_file:
  assumes "bucketName fl \<noteq> []" and "filePath fl \<noteq> []" and "config_error w = None"
    and "s3 w (bucketName fl) = Some objects"
  shows "(files (disk w) (filePath fl) = Some data \<longrightarrow>
            uploadCmd w fl =
              (\<lparr>exit_status = 0, printed = [''File uploaded to S3 successfully.''],
                calls = [PutObjectCall (bucketName fl)
                           (subdirectory fl @ ''/'' @ filePath fl) data]\<rparr>,
               w\<lparr>s3 := (s3 w)(bucketName fl \<mapsto>
                          objects(subdirectory fl @ ''/'' @ filePath fl \<mapsto> data))\<rparr>)
          \<and> (objects(subdirectory fl @ ''/'' @ filePath fl \<mapsto> data)) (filePath fl) =
              objects (filePath fl))
       \<and> (objects (subdirectory fl @ ''/'' @ filePath fl) = None \<longrightarrow>
            downloadCmd w fl =
              (\<lparr>exit_status = 1,
                printed = [''Error downloading file from S3: NoSuchKey: The specified key does not exist''],
                calls = [GetObjectCall (bucketName fl)
                           (subdirectory fl @ ''/'' @ filePath fl)]\<rparr>, w))
       \<and> (objects (subdirectory fl @ ''/'' @ filePath fl) = Some body
            \<and> body_error w = None \<and> filePath fl \<notin> set (unwritable (disk w)) \<longrightarrow>
            downloadCmd w fl =
              (\<lparr>exit_status = 0, printed = [''File downloaded from S3 successfully.''],
                calls = [GetObjectCall (bucketName fl)
                           (subdirectory fl @ ''/'' @ filePath fl)]\<rparr>,
               w\<lparr>disk := (disk w)\<lparr>files := (files (disk w))(filePath fl \<mapsto> body)\<rparr>\<rparr>))
       \<and> (subdirectory fl = [] \<and> files (disk w) (filePath fl) = Some data \<longrightarrow>
            s3 (snd (uploadCmd w fl)) (bucketName fl) =
              Some (objects(CHR ''/'' # filePath fl \<mapsto> data)))
       \<and> (subdirectory fl = [] \<and> objects (CHR ''/'' # filePath fl) = None \<longrightarrow>
            exit_status (fst (downloadCmd w fl)) = 1 \<and> snd (downloadCmd w fl) = w)
       \<and> (\<forall>w' c. c \<in> set (calls (fst (uploadCmd w' fl))) \<longrightarrow>
            (\<exists>sent. c = PutObjectCall (bucketName fl)
                          (subdirectory fl @ ''/'' @ filePath fl) sent))
       \<and> (\<forall>w' c. c \<in> set (calls (fst (downloadCmd w' fl))) \<longrightarrow>
            c = GetObjectCall (bucketName fl) (subdirectory fl @ ''/'' @ filePath fl))"
proof (intro conjI impI allI)
  assume "files (disk w) (filePath fl) = Some data"
  with assms show "uploadCmd w fl =
      (\<lparr>exit_status = 0, printed = [''File uploaded to S3 successfully.''],
        calls = [PutObjectCall (bucketName fl) (subdirectory fl @ ''/'' @ filePath fl) data]\<rparr>,
       w\<lparr>s3 := (s3 w)(bucketName fl \<mapsto>
                  objects(subdirectory fl @ ''/'' @ filePath fl \<mapsto> data))\<rparr>)"
    by (intro upload_ok)
next
  show "(objects(subdirectory fl @ ''/'' @ filePath fl \<mapsto> data)) (filePath fl) =
          objects (filePath fl)"
    using key_is_not_file [of "subdirectory fl" "filePath fl"] by (simp del: append.simps)
next
  assume "objects (subdirectory fl @ ''/'' @ filePath fl) = None"
  with assms show "downloadCmd w fl =
      (\<lparr>exit_status = 1,
        printed = [''Error downloading file from S3: NoSuchKey: The specified key does not exist''],
        calls = [GetObjectCall (bucketName fl) (subdirectory fl @ ''/'' @ filePath fl)]\<rparr>, w)"
    by (intro download_missing)
next
  assume "objects (subdirectory fl @ ''/'' @ filePath fl) = Some body
            \<and> body_error w = None \<and> filePath fl \<notin> set (unwritable (disk w))"
  with assms show "downloadCmd w fl =
      (\<lparr>exit_status = 0, printed = [''File downloaded from S3 successfully.''],
        calls = [GetObjectCall (bucketName fl) (subdirectory fl @ ''/'' @ filePath fl)]\<rparr>,
       w\<lparr>disk := (disk w)\<lparr>files := (files (disk w))(filePath fl \<mapsto> body)\<rparr>\<rparr>)"
    by (intro download_ok [where objects = objects]) simp_all
next
  assume "subdirectory fl = [] \<and> files (disk w) (filePath fl) = Some data"
  with assms upload_ok [of fl w data objects]
  show "s3 (snd (uploadCmd w fl)) (bucketName fl) =
          Some (objects(CHR ''/'' # filePath fl \<mapsto> data))"
    by simp
next
  assume "subdirectory fl = [] \<and> objects (CHR ''/'' # filePath fl) = None"
  with assms download_missing [of fl w objects]
  show "exit_status (fst (downloadCmd w fl)) = 1"
    by simp
next
  assume "subdirectory fl = [] \<and> objects (CHR ''/'' # filePath fl) = None"
  with assms download_missing [of fl w objects]
  show "snd (downloadCmd w fl) = w"
    by simp
next
  fix w' c
  assume "c \<in> set (calls (fst (uploadCmd w' fl)))"
  then show "\<exists>sent. c = PutObjectCall (bucketName fl)
                          (subdirectory fl @ ''/'' @ filePath fl) sent"
    by (rule upload_calls)
next
  fix w' c
  assume "c \<in> set (calls (fst (downloadCmd w' fl)))"
  then show "c = GetObjectCall (bucketName fl) (subdirectory fl @ ''/'' @ filePath fl)"
    by (rule download_calls)
qed

theorem object_key_is_subdirectory_slash_file_witness:
  "uploadCmd stale_world (demo_transfer '''') =
     (\<lparr>exit_status = 0, printed = [''File uploaded to S3 successfully.''],
       calls = [PutObjectCall ''backups'' ''/notes.txt'' ''hello'']\<rparr>,
      stale_world\<lparr>s3 := [''backups'' \<mapsto>
                         [''notes.txt'' \<mapsto> ''stale'', ''/notes.txt'' \<mapsto> ''hello'']]\<rparr>)
   \<and> downloadCmd stale_world (demo_transfer '''') =
     (\<lparr>exit_status = 1,
       printed = [''Error downloading file from S3: NoSuchKey: The specified key does not exist''],
       calls = [GetObjectCall ''backups'' ''/notes.txt'']\<rparr>, stale_world)
   \<and> downloadCmd stored_world (demo_transfer '''') =
     (\<lparr>exit_status = 0, printed = [''File downloaded from S3 successfully.''],
       calls = [GetObjectCall ''backups'' ''/notes.txt'']\<rparr>,
      stored_world\<lparr>disk := \<lparr>files = [''notes.txt'' \<mapsto> ''hello''], unwritable = []\<rparr>\<rparr>)
   \<and> s3 (snd (uploadCmd demo_world (demo_transfer ''2026/11''))) ''backups'' =
     Some [''2026/11/notes.txt'' \<mapsto> ''hello'']"
proof -
  note stale = object_key_is_subdirectory_slash_file
    [where fl = "demo_transfer ''''" and w = stale_world
       and objects = "[''notes.txt'' \<mapsto> ''stale'']" and data = "''hello''"]
  note stored = object_key_is_subdirectory_slash_file
    [where fl = "demo_transfer ''''" and w = stored_world
       and objects = "[''/notes.txt'' \<mapsto> ''hello'']" and body = "''hello''"]
  note nested = object_key_is_subdirectory_slash_file
    [where fl = "demo_transfer ''2026/11''" and w = demo_world
       and objects = Map.empty and data = "''hello''"]
  have up: "uploadCmd stale_world (demo_transfer '''') =
     (\<lparr>exit_status = 0, printed = [''File uploaded to S3 successfully.''],
       calls = [PutObjectCall ''backups'' ''/notes.txt'' ''hello'']\<rparr>,
      stale_world\<lparr>s3 := [''backups'' \<mapsto>
                         [''notes.txt'' \<mapsto> ''stale'', ''/notes.txt'' \<mapsto> ''hello'']]\<rparr>)"
    using stale by (simp add: stale_world_def demo_transfer_def)
  have miss: "downloadCmd stale_world (demo_transfer '''') =
     (\<lparr>exit_status = 1,
       printed = [''Error downloading file from S3: NoSuchKey: The specified key does not exist''],
       calls = [GetObjectCall ''backups'' ''/notes.txt'']\<rparr>, stale_world)"
    using stale by (simp add: stale_world_def demo_transfer_def)
  have down: "downloadCmd stored_world (demo_transfer '''') =
     (\<lparr>exit_status = 0, printed = [''File downloaded from S3 successfully.''],
       calls = [GetObjectCall ''backups'' ''/notes.txt'']\<rparr>,
      stored_world\<lparr>disk := \<lparr>files = [''notes.txt'' \<mapsto> ''hello''], unwritable = []\<rparr>\<rparr>)"
    using stored by (simp add: stored_world_def demo_transfer_def empty_disk_def)
  have deep: "s3 (snd (uploadCmd demo_world (demo_transfer ''2026/11''))) ''backups'' =
     Some [''2026/11/notes.txt'' \<mapsto> ''hello'']"
    using nested by (simp add: demo_world_def demo_transfer_def)
  from up miss down deep show ?thesis
    by (intro conjI)
qed

text \<open>
  C6. Upload followed by download with the same bucket, subdirectory and file restores
  the contents of the file byte for byte, whatever happened to the local files in
  between: the upload stores the contents under the key that the download asks for.
  This is for runs in which both commands can do their work: both required flags are
  given, the configuration loads, the file can be read, the bucket exists, the response
  body arrives whole and the path can be written.
\<close>

theorem upload_then_download_restores_contents:
  assumes "bucketName fl \<noteq> []" and "filePath fl \<noteq> []"
    and "config_error w = None" and "body_error w = None"
    and "files (disk w) (filePath fl) = Some data"
    and "s3 w (bucketName fl) = Some objects"
    and "filePath fl \<notin> set (unwritable later)"
  shows "(case uploadCmd w fl of (up, w1) \<Rightarrow>
            (case downloadCmd (w1\<lparr>disk := later\<rparr>) fl of (down, w2) \<Rightarrow>
               exit_status up = 0 \<and> exit_status down = 0
               \<and> calls up = [PutObjectCall (bucketName fl)
                               (subdirectory fl @ ''/'' @ filePath fl) data]
               \<and> calls down = [GetObjectCall (bucketName fl)
                                 (subdirectory fl @ ''/'' @ filePath fl)]
               \<and> files (disk w2) (filePath fl) = Some data))"
proof -
  let ?key = "subdirectory fl @ ''/'' @ filePath fl"
  let ?w1 = "w\<lparr>s3 := (s3 w)(bucketName fl \<mapsto> objects(?key \<mapsto> data))\<rparr>"
  have up: "uploadCmd w fl =
           (\<lparr>exit_status = 0, printed = [''File uploaded to S3 successfully.''],
             calls = [PutObjectCall (bucketName fl) ?key data]\<rparr>, ?w1)"
    using assms(1,2,3,5,6) by (rule upload_ok)
  have down: "downloadCmd (?w1\<lparr>disk := later\<rparr>) fl =
           (\<lparr>exit_status = 0, printed = [''File downloaded from S3 successfully.''],
             calls = [GetObjectCall (bucketName fl) ?key]\<rparr>,
            (?w1\<lparr>disk := later\<rparr>)\<lparr>disk := (disk (?w1\<lparr>disk := later\<rparr>))
               \<lparr>files := (files (disk (?w1\<lparr>disk := later\<rparr>)))(filePath fl \<mapsto> data)\<rparr>\<rparr>)"
    by (rule download_ok [where objects = "objects(?key \<mapsto> data)"])
       (use assms in simp_all)
  show ?thesis
    unfolding up prod.case down by simp
qed

theorem upload_then_download_restores_contents_witness:
  "(case uploadCmd demo_world (demo_transfer ''2026/11'') of (up, w1) \<Rightarrow>
      (case downloadCmd (w1\<lparr>disk := empty_disk\<rparr>) (demo_transfer ''2026/11'') of (down, w2) \<Rightarrow>
         exit_status up = 0 \<and> exit_status down = 0
         \<and> calls up = [PutObjectCall ''backups'' ''2026/11/notes.txt'' ''hello'']
         \<and> calls down = [GetObjectCall ''backups'' ''2026/11/notes.txt'']
         \<and> files (disk w2) ''notes.txt'' = Some ''hello''))
   \<and> files empty_disk ''notes.txt'' = None"
  using upload_then_download_restores_contents
          [of "demo_transfer ''2026/11''" demo_world "''hello''" Map.empty empty_disk]
  by (simp add: demo_world_def demo_transfer_def empty_disk_def)

end
